theory Spec2Isabelle
  imports Main
begin

section \<open>The Redis charm: data\<close>

text \<open>
  The charm is a class whose handlers read and write the Juju model. The part of the
  model the handlers of \<^verbatim>\<open>src/charm.py\<close> touch is kept in one record, passed to
  every handler and returned updated. A handler that raises returns \<open>Inl\<close> of the
  exception together with the state as it stood at the raise.
\<close>

datatype error = AttributeError | KeyError | IndexError | RelationDataError

datatype status =
    ActiveStatus string
  | WaitingStatus string
  | BlockedStatus string
  | MaintenanceStatus string
  | UnknownStatus

type_synonym databag = "string \<rightharpoonup> string"

text \<open>
  \<open>peer_relation\<close> is what \<^verbatim>\<open>self.model.get_relation(PEER)\<close> gives, \<open>PEER\<close> being the
  name of the peer relation: \<open>None\<close> when the relation does not exist, otherwise the
  application databag \<^verbatim>\<open>relation.data[self.app]\<close>, which every unit of the application
  shares. \<open>relation_set_calls\<close> is the journal of the
  writes made to that databag, oldest first: each item assignment of the source adds one
  entry. The other fields belong to the unit that runs the handler.
\<close>

record charm_state =
  peer_relation :: "databag option"
  relation_set_calls :: "(string \<times> string) list"
  unit_status :: status
  app_status :: status
  workload_version :: "string option"
  is_leader :: bool
  logger :: "string list"

definition WAITING_MESSAGE :: string where
  "WAITING_MESSAGE = ''Waiting for Redis...''"

definition PEER :: string where
  "PEER = ''redis-peers''"

definition PEER_PASSWORD_KEY :: string where
  "PEER_PASSWORD_KEY = ''redis-password''"

section \<open>Library operations the handlers call\<close>

text \<open>Python's \<^verbatim>\<open>dict.get(key, default)\<close>.\<close>

definition dict_get :: "('k \<rightharpoonup> 'v) \<Rightarrow> 'k \<Rightarrow> 'v \<Rightarrow> 'v" where
  "dict_get d k dflt = (case d k of None \<Rightarrow> dflt | Some v \<Rightarrow> v)"

text \<open>\<^verbatim>\<open>string.ascii_letters\<close> and \<^verbatim>\<open>string.digits\<close> of the standard library.\<close>

definition ascii_letters :: string where
  "ascii_letters = ''abcdefghijklmnopqrstuvwxyzABCDEFGHIJKLMNOPQRSTUVWXYZ''"

definition digits :: string where
  "digits = ''0123456789''"

text \<open>
  \<^verbatim>\<open>secrets.choice(seq)\<close> raises IndexError on an empty sequence and otherwise returns
  the element at an index below \<^verbatim>\<open>len(seq)\<close> chosen by the system's random source. The
  random source is outside the program: the raw number it delivers for a draw is the
  argument \<open>r\<close>, brought below the length.
\<close>

definition secrets_choice :: "'a list \<Rightarrow> nat \<Rightarrow> error + 'a" where
  "secrets_choice seq r =
     (if seq = [] then Inl IndexError else Inr (seq ! (r mod length seq)))"

text \<open>
  One call of \<^verbatim>\<open>_generate_password\<close> consumes one draw per loop index: \<open>entropy\<close> gives
  the raw number of the draw made at index \<open>i\<close>.
\<close>

type_synonym entropy = "nat \<Rightarrow> nat"

text \<open>
  The list comprehension \<^verbatim>\<open>[secrets.choice(choices) for i in range(16)]\<close>, over the
  indices still to visit. A one-character string is a \<open>char\<close>, so joining the pieces with
  the empty separator is the list of the characters itself.
\<close>

fun choice_for :: "string \<Rightarrow> entropy \<Rightarrow> nat list \<Rightarrow> error + string" where
  "choice_for choices e [] = Inr []"
| "choice_for choices e (i # rest) =
     (case secrets_choice choices (e i) of
        Inl err \<Rightarrow> Inl err
      | Inr c \<Rightarrow>
          (case choice_for choices e rest of
             Inl err \<Rightarrow> Inl err
           | Inr cs \<Rightarrow> Inr (c # cs)))"

section \<open>The handlers\<close>

definition peers :: "charm_state \<Rightarrow> databag option" where
  "peers s = peer_relation s"

definition generate_password :: "entropy \<Rightarrow> error + string" where
  "generate_password e =
     (let choices = ascii_letters @ digits
      in case choice_for choices e [0..<16] of
           Inl err \<Rightarrow> Inl err
         | Inr password \<Rightarrow> Inr password)"

definition get_password :: "charm_state \<Rightarrow> (error + string) \<times> charm_state" where
  "get_password s =
     (case peers s of
        None \<Rightarrow> (Inl AttributeError, s)
      | Some data \<Rightarrow> (Inr (dict_get data PEER_PASSWORD_KEY ''''), s))"

text \<open>
  The item assignment \<^verbatim>\<open>self._peers.data[self.app][key] = value\<close>. The peer relation is
  fetched again, so the assignment raises AttributeError when the relation is absent.
  The target is the application databag, and the operator framework lets only the
  leader write it: on a unit that is not the leader the assignment raises
  RelationDataError and stores nothing. On the leader the write is journalled and the
  databag updated; a key set to the empty string is deleted.
\<close>

definition peers_setitem :: "string \<Rightarrow> string \<Rightarrow> charm_state \<Rightarrow> (error + unit) \<times> charm_state" where
  "peers_setitem k v s =
     (case peers s of
        None \<Rightarrow> (Inl AttributeError, s)
      | Some data \<Rightarrow>
          (if \<not> is_leader s then (Inl RelationDataError, s)
           else
             (Inr (),
              s\<lparr>peer_relation := Some (if v = [] then data(k := None) else data(k \<mapsto> v)),
                relation_set_calls := relation_set_calls s @ [(k, v)]\<rparr>)))"

definition logger_info :: "string \<Rightarrow> charm_state \<Rightarrow> charm_state" where
  "logger_info msg s = s\<lparr>logger := logger s @ [msg]\<rparr>"

text \<open>\<^verbatim>\<open>"{}".format(x)\<close> for \<open>x\<close> a string or None.\<close>

definition format_opt :: "string option \<Rightarrow> string" where
  "format_opt x = (case x of None \<Rightarrow> ''None'' | Some v \<Rightarrow> v)"

text \<open>
  \<^verbatim>\<open>_leader_elected\<close>, lines 69 to 77: what the handler does once it holds the value
  it read. \<^verbatim>\<open>not redis_password\<close> is true of the empty string only. The right-hand
  side of the assignment is evaluated before its target, so the password is generated
  first.
\<close>

definition leader_elected_body ::
  "entropy \<Rightarrow> string \<Rightarrow> charm_state \<Rightarrow> (error + unit) \<times> charm_state" where
  "leader_elected_body e redis_password s1 =
     (if redis_password = [] then
        (case generate_password e of
           Inl err \<Rightarrow> (Inl err, s1)
         | Inr password \<Rightarrow>
             (case peers_setitem PEER_PASSWORD_KEY password s1 of
                (Inl err, s2) \<Rightarrow> (Inl err, s2)
              | (Inr u, s2) \<Rightarrow>
                  (case peers s2 of
                     None \<Rightarrow> (Inl AttributeError, s2)
                   | Some data \<Rightarrow>
                       (Inr (),
                        logger_info
                          (''REDIS PASSWORD: '' @ format_opt (data PEER_PASSWORD_KEY)) s2))))
      else (Inr (), s1))"

text \<open>\<^verbatim>\<open>_leader_elected\<close>: the read of line 67, then the body.\<close>

definition leader_elected :: "entropy \<Rightarrow> charm_state \<Rightarrow> (error + unit) \<times> charm_state" where
  "leader_elected e s =
     (case get_password s of
        (Inl err, s1) \<Rightarrow> (Inl err, s1)
      | (Inr redis_password, s1) \<Rightarrow> leader_elected_body e redis_password s1)"

text \<open>
  \<^verbatim>\<open>_redis_layer\<close>: the Pebble layer, a dictionary of fixed shape, as records.
\<close>

record service =
  service_override :: string
  service_summary :: string
  service_command :: string
  service_startup :: string
  service_environment :: "(string \<times> string) list"

record layer =
  layer_summary :: string
  layer_description :: string
  layer_services :: "(string \<times> service) list"

definition redis_layer :: "charm_state \<Rightarrow> (error + layer) \<times> charm_state" where
  "redis_layer s =
     (case get_password s of
        (Inl err, s1) \<Rightarrow> (Inl err, s1)
      | (Inr password, s1) \<Rightarrow>
          (Inr \<lparr>layer_summary = ''Redis layer'',
                layer_description = ''Redis layer'',
                layer_services =
                  [(''redis'',
                    \<lparr>service_override = ''replace'',
                     service_summary = ''Redis service'',
                     service_command = ''/usr/local/bin/start-redis.sh redis-server'',
                     service_startup = ''enabled'',
                     service_environment = [(''REDIS_PASSWORD'', password)]\<rparr>)]\<rparr>,
           s1))"

text \<open>
  The Redis server as the client sees it: \<^verbatim>\<open>Redis(password=p).info("server")\<close> either
  raises or returns a dictionary. It is outside the program and a parameter of the
  handlers that probe it.
\<close>

datatype redis_exception = RedisError | OtherError error

type_synonym redis_server = "string \<Rightarrow> redis_exception + (string \<rightharpoonup> string)"

datatype raised = Redis_raised | Raised error

text \<open>The body of the \<^verbatim>\<open>try\<close> of \<^verbatim>\<open>_redis_check\<close>.\<close>

definition redis_check_try ::
  "redis_server \<Rightarrow> charm_state \<Rightarrow> (raised + bool) \<times> charm_state" where
  "redis_check_try server s =
     (case get_password s of
        (Inl err, s1) \<Rightarrow> (Inl (Raised err), s1)
      | (Inr password, s1) \<Rightarrow>
          (case server password of
             Inl RedisError \<Rightarrow> (Inl Redis_raised, s1)
           | Inl (OtherError err) \<Rightarrow> (Inl (Raised err), s1)
           | Inr info \<Rightarrow>
               (case info ''redis_version'' of
                  None \<Rightarrow> (Inl (Raised KeyError), s1)
                | Some version \<Rightarrow>
                    (let s2 = s1\<lparr>unit_status := ActiveStatus []\<rparr>;
                         s3 = s2\<lparr>workload_version := Some version\<rparr>;
                         s4 = (if is_leader s3 then s3\<lparr>app_status := ActiveStatus []\<rparr> else s3)
                     in (Inr True, s4)))))"

text \<open>The \<^verbatim>\<open>except RedisError\<close> clause of \<^verbatim>\<open>_redis_check\<close>.\<close>

definition redis_check_except :: "charm_state \<Rightarrow> (error + bool) \<times> charm_state" where
  "redis_check_except s =
     (let s1 = s\<lparr>unit_status := WaitingStatus WAITING_MESSAGE\<rparr>;
          s2 = (if is_leader s1 then s1\<lparr>app_status := WaitingStatus WAITING_MESSAGE\<rparr> else s1)
      in (Inr False, s2))"

definition redis_check :: "redis_server \<Rightarrow> charm_state \<Rightarrow> (error + bool) \<times> charm_state" where
  "redis_check server s =
     (case redis_check_try server s of
        (Inl Redis_raised, s1) \<Rightarrow> redis_check_except s1
      | (Inl (Raised err), s1) \<Rightarrow> (Inl err, s1)
      | (Inr b, s1) \<Rightarrow> (Inr b, s1))"

text \<open>
  \<^verbatim>\<open>check_service\<close>. The value returned is the dictionary handed to
  \<^verbatim>\<open>event.set_results\<close>; when the handler raises, no results are set.
\<close>

definition check_service ::
  "redis_server \<Rightarrow> charm_state \<Rightarrow> (error + (string \<rightharpoonup> string)) \<times> charm_state" where
  "check_service server s =
     (let s0 = logger_info ''Beginning check_service'' s;
          results = Map.empty
      in case redis_check server s0 of
           (Inl err, s1) \<Rightarrow> (Inl err, s1)
         | (Inr b, s1) \<Rightarrow>
             (if b then (Inr (results(''result'' \<mapsto> ''Service is running'')), s1)
              else (Inr (results(''result'' \<mapsto> ''Service is not running'')), s1)))"

text \<open>\<^verbatim>\<open>_get_password_action\<close>, with the results set on the event as its value.\<close>

definition get_password_action ::
  "charm_state \<Rightarrow> (error + (string \<rightharpoonup> string)) \<times> charm_state" where
  "get_password_action s =
     (case get_password s of
        (Inl err, s1) \<Rightarrow> (Inl err, s1)
      | (Inr password, s1) \<Rightarrow> (Inr (Map.empty(''redis-password'' \<mapsto> password)), s1))"

section \<open>Reading the state\<close>

text \<open>\<open>n\<close> successive calls of \<^verbatim>\<open>_get_password\<close>: the values returned, and the state left.\<close>

fun get_password_times :: "nat \<Rightarrow> charm_state \<Rightarrow> (error + string) list \<times> charm_state" where
  "get_password_times 0 s = ([], s)"
| "get_password_times (Suc n) s =
     (case get_password s of
        (r, s1) \<Rightarrow> (case get_password_times n s1 of (rs, s2) \<Rightarrow> (r # rs, s2)))"

text \<open>The writes of the journal that went to the credential key, as the values written.\<close>

definition credential_writes :: "charm_state \<Rightarrow> string list" where
  "credential_writes s =
     map snd (filter (\<lambda>kv. fst kv = PEER_PASSWORD_KEY) (relation_set_calls s))"

text \<open>
  The state machine of the specification, read off a state: a group is provisioned when
  its peer databag holds a non-empty value under the credential key.
\<close>

datatype provisioning = UNPROVISIONED | PROVISIONED

definition group_state :: "charm_state \<Rightarrow> provisioning" where
  "group_state s =
     (case peers s of
        None \<Rightarrow> UNPROVISIONED
      | Some data \<Rightarrow>
          (if dict_get data PEER_PASSWORD_KEY [] = [] then UNPROVISIONED else PROVISIONED))"

text \<open>How often a run of states steps from \<open>a\<close> to \<open>b\<close>.\<close>

fun transitions :: "'a \<Rightarrow> 'a \<Rightarrow> 'a list \<Rightarrow> nat" where
  "transitions a b (x # y # rest) =
     (if x = a \<and> y = b then 1 else 0) + transitions a b (y # rest)"
| "transitions a b rest = 0"

text \<open>The entropy source that delivers \<open>r\<close> at every draw.\<close>

definition constant_entropy :: "nat \<Rightarrow> entropy" where
  "constant_entropy r i = r"

text \<open>A unit of a group just deployed: the peer relation exists and its databag is empty.\<close>

definition fresh_unit :: "bool \<Rightarrow> charm_state" where
  "fresh_unit leader =
     \<lparr>peer_relation = Some Map.empty,
      relation_set_calls = [],
      unit_status = MaintenanceStatus [],
      app_status = UnknownStatus,
      workload_version = None,
      is_leader = leader,
      logger = []\<rparr>"

text \<open>A unit whose peer relation has not been created yet.\<close>

definition unrelated_unit :: "bool \<Rightarrow> charm_state" where
  "unrelated_unit leader = (fresh_unit leader)\<lparr>peer_relation := None\<rparr>"

text \<open>The alphabet \<open>[A-Za-z0-9]\<close> of the specification, by character code.\<close>

definition is_alnum :: "char \<Rightarrow> bool" where
  "is_alnum c =
     (let n = (of_char c :: nat)
      in (48 \<le> n \<and> n \<le> 57) \<or> (65 \<le> n \<and> n \<le> 90) \<or> (97 \<le> n \<and> n \<le> 122))"

section \<open>Calls of the handler on the units of a group\<close>












section \<open>Facts about the handlers\<close>

lemma get_password_present:
  "peers s = Some data \<Longrightarrow> get_password s = (Inr (dict_get data PEER_PASSWORD_KEY []), s)"
  by (simp add: get_password_def)

lemma get_password_absent:
  "peers s = None \<Longrightarrow> get_password s = (Inl AttributeError, s)"
  by (simp add: get_password_def)

lemma choice_for_ok:
  assumes "choices \<noteq> []"
  shows "\<exists>cs. choice_for choices e idxs = Inr cs \<and> length cs = length idxs \<and> set cs \<subseteq> set choices"
proof (induction idxs)
  case Nil
  show ?case by simp
next
  case (Cons i rest)
  then obtain cs where cs: "choice_for choices e rest = Inr cs" "length cs = length rest"
    "set cs \<subseteq> set choices" by blast
  have "choices ! (e i mod length choices) \<in> set choices"
    using assms by simp
  with cs show ?case
    using assms by (simp add: secrets_choice_def)
qed

lemma generate_password_ok:
  "\<exists>pw. generate_password e = Inr pw \<and> length pw = 16 \<and> set pw \<subseteq> set (ascii_letters @ digits)"
proof -
  have ne: "ascii_letters @ digits \<noteq> []" by (simp add: digits_def)
  from choice_for_ok [OF ne, of e "[0..<16]"]
  show ?thesis by (auto simp: generate_password_def Let_def)
qed

lemma generate_password_nonempty: "generate_password e = Inr pw \<Longrightarrow> pw \<noteq> []"
  using generate_password_ok [of e] by auto

lemma leader_elected_absent:
  "peers s = None \<Longrightarrow> leader_elected e s = (Inl AttributeError, s)"
  by (simp add: leader_elected_def get_password_absent)

lemma leader_elected_provisioned:
  "group_state s = PROVISIONED \<Longrightarrow> leader_elected e s = (Inr (), s)"
  by (auto simp: group_state_def leader_elected_def leader_elected_body_def get_password_def
       split: option.splits if_splits)

lemma leader_elected_unprovisioned:
  assumes "peers s = Some data" and "dict_get data PEER_PASSWORD_KEY [] = []"
    and "generate_password e = Inr pw" and "is_leader s"
  shows "leader_elected e s =
    (Inr (), s\<lparr>peer_relation := Some (data(PEER_PASSWORD_KEY \<mapsto> pw)),
               relation_set_calls := relation_set_calls s @ [(PEER_PASSWORD_KEY, pw)],
               logger := logger s @ [''REDIS PASSWORD: '' @ pw]\<rparr>)"
proof -
  have "pw \<noteq> []" using assms(3) by (rule generate_password_nonempty)
  with assms show ?thesis
    by (simp add: leader_elected_def leader_elected_body_def get_password_def peers_setitem_def
        peers_def logger_info_def format_opt_def)
qed

lemma leader_elected_not_leader:
  assumes "peers s = Some data" and "dict_get data PEER_PASSWORD_KEY [] = []"
    and "\<not> is_leader s"
  shows "leader_elected e s = (Inl RelationDataError, s)"
proof -
  obtain pw where "generate_password e = Inr pw"
    using generate_password_ok [of e] by blast
  with assms show ?thesis
    by (simp add: leader_elected_def leader_elected_body_def get_password_def peers_setitem_def)
qed

lemma group_state_cases:
  obtains (absent) "peers s = None" "group_state s = UNPROVISIONED"
  | (empty) data where "peers s = Some data" "dict_get data PEER_PASSWORD_KEY [] = []"
      "group_state s = UNPROVISIONED"
  | (present) data where "peers s = Some data" "dict_get data PEER_PASSWORD_KEY [] \<noteq> []"
      "group_state s = PROVISIONED"
  by (cases "peers s") (auto simp: group_state_def)

lemma leader_elected_success_provisioned:
  assumes "leader_elected e s = (Inr (), s')"
  shows "group_state s' = PROVISIONED"
proof (cases s rule: group_state_cases)
  case absent
  with assms show ?thesis by (simp add: leader_elected_absent)
next
  case (empty data)
  obtain pw where "generate_password e = Inr pw"
    using generate_password_ok [of e] by blast
  then have pw: "generate_password e = Inr pw" "pw \<noteq> []"
    by (simp_all add: generate_password_nonempty)
  have leader: "is_leader s"
    using leader_elected_not_leader [OF empty(1,2), of e] assms by auto
  from leader_elected_unprovisioned [OF empty(1,2) pw(1) leader] assms pw(2)
  show ?thesis by (auto simp: group_state_def peers_def dict_get_def)
next
  case (present data)
  with assms show ?thesis by (simp add: leader_elected_provisioned)
qed

lemma choices_alnum: "list_all is_alnum (ascii_letters @ digits)"
  by (simp add: ascii_letters_def digits_def is_alnum_def)

lemma generate_password_constant_0:
  "generate_password (constant_entropy 0) = Inr ''aaaaaaaaaaaaaaaa''"
  by (simp add: generate_password_def constant_entropy_def secrets_choice_def
      ascii_letters_def digits_def upt_rec)


section \<open>The password generator\<close>

text \<open>
  Claim C4. Whatever the random source delivers, \<^verbatim>\<open>_generate_password\<close> raises nothing
  and returns a string of exactly 16 characters, each a letter or a digit; the alphabet
  it draws from has 62 different symbols.
\<close>

theorem generate_password_16_alphanumeric:
  "\<exists>password. generate_password e = Inr password \<and> length password = 16 \<and>
     list_all is_alnum password \<and> set password \<subseteq> set (ascii_letters @ digits) \<and>
     length (ascii_letters @ digits) = 62 \<and> distinct (ascii_letters @ digits)"
proof -
  obtain pw where pw: "generate_password e = Inr pw" "length pw = 16"
    "set pw \<subseteq> set (ascii_letters @ digits)"
    using generate_password_ok [of e] by blast
  have "list_all is_alnum pw"
    using pw(3) choices_alnum unfolding list_all_iff by blast
  moreover have "length (ascii_letters @ digits) = 62"
    by (simp add: ascii_letters_def digits_def)
  moreover have "distinct (ascii_letters @ digits)"
    by (simp add: ascii_letters_def digits_def)
  ultimately show ?thesis using pw by blast
qed

section \<open>Reading the credential\<close>

text \<open>
  Claim C5. In a state whose peer databag holds nothing under the credential key,
  \<^verbatim>\<open>_get_password\<close> does not raise: it returns the empty string and leaves the state
  as it was.
\<close>

theorem get_password_unprovisioned_empty:
  assumes "peers s = Some data" and "data PEER_PASSWORD_KEY = None"
  shows "get_password s = (Inr [], s)"
  using assms by (simp add: get_password_def dict_get_def)

theorem get_password_unprovisioned_empty_witness:
  "peers (fresh_unit False) = Some Map.empty \<and>
   (Map.empty :: databag) PEER_PASSWORD_KEY = None \<and>
   get_password (fresh_unit False) = (Inr [], fresh_unit False)"
proof -
  have p: "peers (fresh_unit False) = Some Map.empty"
    by (simp add: peers_def fresh_unit_def)
  have k: "(Map.empty :: databag) PEER_PASSWORD_KEY = None" by simp
  from get_password_unprovisioned_empty [OF p k] p k show ?thesis by simp
qed

text \<open>
  Claim C7. \<^verbatim>\<open>_get_password\<close> is a pure read: in every state it returns the state
  unchanged, so the databag and the journal of writes are as before, and what it returns
  does not depend on whether the unit is the leader.
\<close>

theorem get_password_pure_read:
  "snd (get_password s) = s \<and>
   relation_set_calls (snd (get_password s)) = relation_set_calls s \<and>
   peer_relation (snd (get_password s)) = peer_relation s \<and>
   fst (get_password (s\<lparr>is_leader := leader\<rparr>)) = fst (get_password s)"
  by (simp add: get_password_def peers_def split: option.splits)

text \<open>
  Claim C9. When the peer relation is absent, each operation that touches the
  credential raises AttributeError at the dereference of \<^verbatim>\<open>self._peers\<close> instead of
  returning an absent value: \<^verbatim>\<open>_get_password\<close>, \<^verbatim>\<open>_leader_elected\<close>, the
  get-initial-admin-password action and \<^verbatim>\<open>_redis_layer\<close>.
\<close>

theorem peer_relation_absent_raises:
  assumes "peers s = None"
  shows "get_password s = (Inl AttributeError, s) \<and>
         leader_elected e s = (Inl AttributeError, s) \<and>
         get_password_action s = (Inl AttributeError, s) \<and>
         redis_layer s = (Inl AttributeError, s)"
  using assms
  by (simp add: get_password_absent leader_elected_absent get_password_action_def
      redis_layer_def)

theorem peer_relation_absent_raises_witness:
  "peers (unrelated_unit True) = None \<and>
   get_password (unrelated_unit True) = (Inl AttributeError, unrelated_unit True) \<and>
   leader_elected (constant_entropy 0) (unrelated_unit True)
     = (Inl AttributeError, unrelated_unit True) \<and>
   get_password_action (unrelated_unit True) = (Inl AttributeError, unrelated_unit True) \<and>
   redis_layer (unrelated_unit True) = (Inl AttributeError, unrelated_unit True)"
proof -
  have p: "peers (unrelated_unit True) = None"
    by (simp add: peers_def unrelated_unit_def)
  from peer_relation_absent_raises [OF p, of "constant_entropy 0"] p show ?thesis by simp
qed

lemma leader_elected_fresh_unit:
  "leader_elected (constant_entropy 0) (fresh_unit True) =
     (Inr (),
      (fresh_unit True)
        \<lparr>peer_relation := Some (Map.empty(PEER_PASSWORD_KEY \<mapsto> ''aaaaaaaaaaaaaaaa'')),
         relation_set_calls := [(PEER_PASSWORD_KEY, ''aaaaaaaaaaaaaaaa'')],
         logger := [''REDIS PASSWORD: aaaaaaaaaaaaaaaa'']\<rparr>)"
proof -
  have p: "peers (fresh_unit True) = Some Map.empty"
    by (simp add: peers_def fresh_unit_def)
  have k: "dict_get (Map.empty :: databag) PEER_PASSWORD_KEY [] = []"
    by (simp add: dict_get_def)
  have l: "is_leader (fresh_unit True)" by (simp add: fresh_unit_def)
  from leader_elected_unprovisioned [OF p k generate_password_constant_0 l]
  show ?thesis by (simp add: fresh_unit_def)
qed

lemma group_state_after_fresh:
  "group_state (snd (leader_elected (constant_entropy 0) (fresh_unit True))) = PROVISIONED"
  by (simp add: leader_elected_fresh_unit group_state_def peers_def dict_get_def)

lemma get_password_times_const:
  "get_password r = (Inr v, r) \<Longrightarrow> get_password_times n r = (replicate n (Inr v), r)"
  by (induction n) simp_all

section \<open>Provisioning the credential\<close>

text \<open>
  Claim C2. Whenever the read of the credential key returns a non-empty value,
  \<^verbatim>\<open>_leader_elected\<close> returns without changing the state at all. So a second call after
  a successful one succeeds, writes nothing (the journal of writes is as before) and
  leaves the stored value as it was.
\<close>

theorem leader_elected_idempotent:
  "(fst (get_password s) = Inr v \<and> v \<noteq> [] \<longrightarrow> leader_elected e s = (Inr (), s)) \<and>
   (leader_elected e1 s = (Inr (), s1) \<longrightarrow>
      leader_elected e2 s1 = (Inr (), s1) \<and>
      relation_set_calls (snd (leader_elected e2 s1)) = relation_set_calls s1 \<and>
      peer_relation (snd (leader_elected e2 s1)) = peer_relation s1)"
proof -
  have "leader_elected e s = (Inr (), s)" if "fst (get_password s) = Inr v" "v \<noteq> []"
  proof -
    from that have "group_state s = PROVISIONED"
      by (auto simp: get_password_def group_state_def split: option.splits)
    then show ?thesis by (rule leader_elected_provisioned)
  qed
  moreover have "leader_elected e2 s1 = (Inr (), s1)" if "leader_elected e1 s = (Inr (), s1)"
    using leader_elected_success_provisioned [OF that] by (rule leader_elected_provisioned)
  ultimately show ?thesis by simp
qed

theorem leader_elected_idempotent_witness:
  "fst (get_password (snd (leader_elected (constant_entropy 0) (fresh_unit True))))
     = Inr ''aaaaaaaaaaaaaaaa'' \<and>
   ''aaaaaaaaaaaaaaaa'' \<noteq> [] \<and>
   leader_elected (constant_entropy 0) (fresh_unit True)
     = (Inr (), snd (leader_elected (constant_entropy 0) (fresh_unit True))) \<and>
   leader_elected (constant_entropy 1) (snd (leader_elected (constant_entropy 0) (fresh_unit True)))
     = (Inr (), snd (leader_elected (constant_entropy 0) (fresh_unit True))) \<and>
   credential_writes (snd (leader_elected (constant_entropy 1)
       (snd (leader_elected (constant_entropy 0) (fresh_unit True)))))
     = [''aaaaaaaaaaaaaaaa'']"
proof -
  let ?P = "snd (leader_elected (constant_entropy 0) (fresh_unit True))"
  have r: "fst (get_password ?P) = Inr ''aaaaaaaaaaaaaaaa''"
    by (simp add: leader_elected_fresh_unit get_password_def peers_def dict_get_def)
  have f: "leader_elected (constant_entropy 0) (fresh_unit True) = (Inr (), ?P)"
    by (simp add: leader_elected_fresh_unit)
  have w: "credential_writes ?P = [''aaaaaaaaaaaaaaaa'']"
    by (simp add: leader_elected_fresh_unit credential_writes_def)
  have n: "''aaaaaaaaaaaaaaaa'' \<noteq> []" by simp
  have again: "leader_elected (constant_entropy 1) ?P = (Inr (), ?P)"
    using leader_elected_idempotent
      [where s = ?P and v = "''aaaaaaaaaaaaaaaa''" and e = "constant_entropy 1"] r n
    by blast
  have second: "leader_elected (constant_entropy 1) ?P = (Inr (), ?P)"
    using leader_elected_idempotent
      [where s = "fresh_unit True" and ?e1.0 = "constant_entropy 0" and ?s1.0 = ?P
        and ?e2.0 = "constant_entropy 1"] f
    by blast
  have journal: "credential_writes (snd (leader_elected (constant_entropy 1) ?P))
      = [''aaaaaaaaaaaaaaaa'']"
    by (simp only: second snd_conv w)
  show ?thesis
    by (intro conjI) (rule r n f again journal)+
qed

section \<open>The check-service action\<close>

text \<open>
  Claim C10. With the peer relation present: when the probe of the Redis server raises
  a Redis error, \<^verbatim>\<open>check_service\<close> sets the results to the single entry
  \<open>result \<mapsto> Service is not running\<close> and the unit status is waiting with the message
  \<open>Waiting for Redis...\<close>; when the probe succeeds (the server's info carries its
  version) the results are the single entry \<open>result \<mapsto> Service is running\<close>. Whenever
  the action sets results at all, they have exactly the one key \<open>result\<close>.
\<close>

theorem check_service_result:
  assumes "peers s = Some data"
  shows "(server (dict_get data PEER_PASSWORD_KEY []) = Inl RedisError \<longrightarrow>
            (\<exists>s'. check_service server s
                     = (Inr (Map.empty(''result'' \<mapsto> ''Service is not running'')), s') \<and>
                   unit_status s' = WaitingStatus ''Waiting for Redis...'')) \<and>
         (\<forall>info version.
            server (dict_get data PEER_PASSWORD_KEY []) = Inr info \<and>
            info ''redis_version'' = Some version \<longrightarrow>
            (\<exists>s'. check_service server s
                     = (Inr (Map.empty(''result'' \<mapsto> ''Service is running'')), s') \<and>
                   unit_status s' = ActiveStatus [])) \<and>
         (\<forall>results s'. check_service server s = (Inr results, s') \<longrightarrow>
            dom results = {''result''})"
proof (intro conjI allI impI)
  let ?s0 = "logger_info ''Beginning check_service'' s"
  have p0: "peers ?s0 = Some data"
    using assms by (simp add: peers_def logger_info_def)
  {
    assume "server (dict_get data PEER_PASSWORD_KEY []) = Inl RedisError"
    then show "\<exists>s'. check_service server s
                     = (Inr (Map.empty(''result'' \<mapsto> ''Service is not running'')), s') \<and>
                   unit_status s' = WaitingStatus ''Waiting for Redis...''"
      using p0
      by (simp add: check_service_def redis_check_def redis_check_try_def redis_check_except_def
          get_password_def WAITING_MESSAGE_def Let_def)
  }
  {
    fix info version
    assume "server (dict_get data PEER_PASSWORD_KEY []) = Inr info \<and>
            info ''redis_version'' = Some version"
    then show "\<exists>s'. check_service server s
                     = (Inr (Map.empty(''result'' \<mapsto> ''Service is running'')), s') \<and>
                   unit_status s' = ActiveStatus []"
      using p0
      by (simp add: check_service_def redis_check_def redis_check_try_def
          get_password_def Let_def)
  }
  {
    fix results s'
    assume "check_service server s = (Inr results, s')"
    then show "dom results = {''result''}"
      by (auto simp: check_service_def Let_def split: prod.splits sum.splits if_splits)
  }
qed

theorem check_service_result_witness:
  "peers (fresh_unit True) = Some Map.empty \<and>
   fst (check_service (\<lambda>password. Inl RedisError) (fresh_unit True))
     = Inr (Map.empty(''result'' \<mapsto> ''Service is not running'')) \<and>
   unit_status (snd (check_service (\<lambda>password. Inl RedisError) (fresh_unit True)))
     = WaitingStatus ''Waiting for Redis...'' \<and>
   fst (check_service (\<lambda>password. Inr (Map.empty(''redis_version'' \<mapsto> ''7.0.5'')))
          (fresh_unit True))
     = Inr (Map.empty(''result'' \<mapsto> ''Service is running'')) \<and>
   dom (Map.empty(''result'' \<mapsto> ''Service is running'')) = {''result''}"
proof -
  let ?down = "\<lambda>password :: string. Inl RedisError :: redis_exception + (string \<rightharpoonup> string)"
  let ?up = "\<lambda>password :: string.
    Inr (Map.empty(''redis_version'' \<mapsto> ''7.0.5'')) :: redis_exception + (string \<rightharpoonup> string)"
  have p: "peers (fresh_unit True) = Some Map.empty"
    by (simp add: peers_def fresh_unit_def)
  note inst_down = check_service_result [OF p, of ?down]
  note inst_up = check_service_result [OF p, of ?up]
  from inst_down obtain s1 where
    d: "check_service ?down (fresh_unit True)
          = (Inr (Map.empty(''result'' \<mapsto> ''Service is not running'')), s1)"
    and w: "unit_status s1 = WaitingStatus ''Waiting for Redis...''"
    by blast
  have "?up (dict_get (Map.empty :: databag) PEER_PASSWORD_KEY [])
      = Inr (Map.empty(''redis_version'' \<mapsto> ''7.0.5'')) \<and>
    (Map.empty(''redis_version'' \<mapsto> ''7.0.5'')) ''redis_version'' = Some ''7.0.5''"
    by simp
  with inst_up obtain s2 where
    u: "check_service ?up (fresh_unit True)
          = (Inr (Map.empty(''result'' \<mapsto> ''Service is running'')), s2)"
    by blast
  with inst_up have 4: "dom (Map.empty(''result'' \<mapsto> ''Service is running'')) = {''result''}"
    by blast
  have 1: "fst (check_service ?down (fresh_unit True))
     = Inr (Map.empty(''result'' \<mapsto> ''Service is not running''))"
    by (simp only: d fst_conv)
  have 2: "unit_status (snd (check_service ?down (fresh_unit True)))
     = WaitingStatus ''Waiting for Redis...''"
    by (simp only: d snd_conv w)
  have 3: "fst (check_service ?up (fresh_unit True))
     = Inr (Map.empty(''result'' \<mapsto> ''Service is running''))"
    by (simp only: u fst_conv)
  show ?thesis
    by (intro conjI) (rule p 1 2 3 4)+
qed

section \<open>What a successful call leaves behind\<close>

lemma leader_elected_present:
  assumes "peers s \<noteq> None \<and> (is_leader s \<or> group_state s = PROVISIONED)"
  shows "fst (leader_elected e s) = Inr ()"
proof (cases s rule: group_state_cases)
  case absent
  with assms show ?thesis by simp
next
  case (empty data)
  obtain pw where "generate_password e = Inr pw"
    using generate_password_ok [of e] by blast
  moreover have "is_leader s" using assms empty(3) by auto
  ultimately show ?thesis
    using leader_elected_unprovisioned [OF empty(1,2)] by simp
next
  case (present data)
  then show ?thesis by (simp add: leader_elected_provisioned)
qed

text \<open>
  Claim C3. With the peer relation present \<^verbatim>\<open>_leader_elected\<close> returns successfully
  when the unit is the leader or the group is provisioned already; on a unit that is not
  the leader, with the group unprovisioned, it raises RelationDataError and stores
  nothing. After a successful return the databag holds a non-empty value under the credential
  key: the password generated and written by this call when the group was not
  provisioned before, the value already stored otherwise. Any number of successive
  \<^verbatim>\<open>_get_password\<close> calls, on any unit that sees this databag, return that value.
\<close>

theorem leader_elected_provisions:
  "(peers s \<noteq> None \<and> (is_leader s \<or> group_state s = PROVISIONED) \<longrightarrow>
      fst (leader_elected e s) = Inr ()) \<and>
   (peers s \<noteq> None \<and> \<not> is_leader s \<and> group_state s = UNPROVISIONED \<longrightarrow>
      leader_elected e s = (Inl RelationDataError, s)) \<and>
   (leader_elected e s = (Inr (), s') \<longrightarrow>
      (\<exists>v data. v \<noteq> [] \<and> peers s' = Some data \<and> data PEER_PASSWORD_KEY = Some v \<and>
         (group_state s = UNPROVISIONED \<longrightarrow>
            is_leader s \<and> generate_password e = Inr v \<and>
            relation_set_calls s' = relation_set_calls s @ [(PEER_PASSWORD_KEY, v)]) \<and>
         (group_state s = PROVISIONED \<longrightarrow> fst (get_password s) = Inr v \<and> s' = s) \<and>
         (\<forall>n r. peers r = peers s' \<longrightarrow>
            get_password_times n r = (replicate n (Inr v), r))))"
proof (intro conjI impI)
  assume "peers s \<noteq> None \<and> (is_leader s \<or> group_state s = PROVISIONED)"
  then show "fst (leader_elected e s) = Inr ()" by (rule leader_elected_present)
next
  assume "peers s \<noteq> None \<and> \<not> is_leader s \<and> group_state s = UNPROVISIONED"
  then show "leader_elected e s = (Inl RelationDataError, s)"
    by (cases s rule: group_state_cases) (simp_all add: leader_elected_not_leader)
next
  assume ok: "leader_elected e s = (Inr (), s')"
  have reads: "\<forall>n r. peers r = Some data \<longrightarrow> get_password_times n r = (replicate n (Inr v), r)"
    if "data PEER_PASSWORD_KEY = Some v" for data v
    using that by (auto intro!: get_password_times_const simp: get_password_def dict_get_def)
  show "\<exists>v data. v \<noteq> [] \<and> peers s' = Some data \<and> data PEER_PASSWORD_KEY = Some v \<and>
         (group_state s = UNPROVISIONED \<longrightarrow>
            is_leader s \<and> generate_password e = Inr v \<and>
            relation_set_calls s' = relation_set_calls s @ [(PEER_PASSWORD_KEY, v)]) \<and>
         (group_state s = PROVISIONED \<longrightarrow> fst (get_password s) = Inr v \<and> s' = s) \<and>
         (\<forall>n r. peers r = peers s' \<longrightarrow>
            get_password_times n r = (replicate n (Inr v), r))"
  proof (cases s rule: group_state_cases)
    case absent
    with ok show ?thesis by (simp add: leader_elected_absent)
  next
    case (empty data)
    obtain pw where "generate_password e = Inr pw"
      using generate_password_ok [of e] by blast
    then have pw: "generate_password e = Inr pw" "pw \<noteq> []"
      by (simp_all add: generate_password_nonempty)
    let ?d = "data(PEER_PASSWORD_KEY \<mapsto> pw)"
    have leader: "is_leader s"
      using leader_elected_not_leader [OF empty(1,2), of e] ok by auto
    from leader_elected_unprovisioned [OF empty(1,2) pw(1) leader] ok
    have s': "peers s' = Some ?d"
      "relation_set_calls s' = relation_set_calls s @ [(PEER_PASSWORD_KEY, pw)]"
      by (auto simp: peers_def)
    have "?d PEER_PASSWORD_KEY = Some pw" by simp
    from reads [of ?d pw, OF this] s' pw empty(3) leader show ?thesis
      by (intro exI [of _ pw] exI [of _ ?d]) simp
  next
    case (present data)
    with ok have eq: "s' = s" by (simp add: leader_elected_provisioned)
    from present(2) obtain v where v: "data PEER_PASSWORD_KEY = Some v" "v \<noteq> []"
      by (auto simp: dict_get_def split: option.splits)
    have "fst (get_password s) = Inr v"
      using present(1) v(1) by (simp add: get_password_def dict_get_def)
    with reads [of data v, OF v(1)] v present eq show ?thesis
      by (intro exI [of _ v] exI [of _ data]) simp
  qed
qed

theorem leader_elected_provisions_witness:
  "peers (fresh_unit True) \<noteq> None \<and> is_leader (fresh_unit True) \<and>
   fst (leader_elected (constant_entropy 0) (fresh_unit True)) = Inr () \<and>
   peers (fresh_unit False) \<noteq> None \<and> \<not> is_leader (fresh_unit False) \<and>
   group_state (fresh_unit False) = UNPROVISIONED \<and>
   leader_elected (constant_entropy 0) (fresh_unit False) = (Inl RelationDataError, fresh_unit False) \<and>
   group_state (fresh_unit True) = UNPROVISIONED \<and>
   generate_password (constant_entropy 0) = Inr ''aaaaaaaaaaaaaaaa'' \<and>
   get_password_times 3
     ((snd (leader_elected (constant_entropy 0) (fresh_unit True)))\<lparr>is_leader := False\<rparr>)
     = (replicate 3 (Inr ''aaaaaaaaaaaaaaaa''),
        (snd (leader_elected (constant_entropy 0) (fresh_unit True)))\<lparr>is_leader := False\<rparr>) \<and>
   group_state (snd (leader_elected (constant_entropy 0) (fresh_unit True))) = PROVISIONED \<and>
   leader_elected (constant_entropy 1)
       ((snd (leader_elected (constant_entropy 0) (fresh_unit True)))\<lparr>is_leader := False\<rparr>)
     = (Inr (), (snd (leader_elected (constant_entropy 0) (fresh_unit True)))\<lparr>is_leader := False\<rparr>)"
proof -
  let ?s = "fresh_unit True"
  let ?n = "fresh_unit False"
  let ?e = "constant_entropy 0"
  let ?P = "snd (leader_elected ?e ?s)"
  let ?Q = "?P\<lparr>is_leader := False\<rparr>"
  note inst = leader_elected_provisions [of ?s ?e ?P]
  have p: "peers ?s \<noteq> None" by (simp add: peers_def fresh_unit_def)
  have l: "is_leader ?s" by (simp add: fresh_unit_def)
  have u: "group_state ?s = UNPROVISIONED"
    by (simp add: group_state_def peers_def fresh_unit_def dict_get_def)
  from inst p l have ok: "fst (leader_elected ?e ?s) = Inr ()" by blast
  have pn: "peers ?n \<noteq> None" by (simp add: peers_def fresh_unit_def)
  have ln: "\<not> is_leader ?n" by (simp add: fresh_unit_def)
  have un: "group_state ?n = UNPROVISIONED"
    by (simp add: group_state_def peers_def fresh_unit_def dict_get_def)
  from leader_elected_provisions [of ?n ?e] pn ln un
  have refused: "leader_elected ?e ?n = (Inl RelationDataError, ?n)" by blast
  from ok have "leader_elected ?e ?s = (Inr (), ?P)" by (simp add: prod_eq_iff)
  with inst u obtain v where v: "generate_password ?e = Inr v"
    and reads: "\<forall>n r. peers r = peers ?P \<longrightarrow> get_password_times n r = (replicate n (Inr v), r)"
    by blast
  from v have "v = ''aaaaaaaaaaaaaaaa''" by (simp add: generate_password_constant_0)
  moreover have pq: "peers ?Q = peers ?P" by (simp add: peers_def)
  ultimately have three: "get_password_times 3 ?Q = (replicate 3 (Inr ''aaaaaaaaaaaaaaaa''), ?Q)"
    using reads by blast
  have g: "group_state ?P = PROVISIONED" by (rule group_state_after_fresh)
  then have gq: "group_state ?Q = PROVISIONED"
    using pq by (simp add: group_state_def)
  then have "peers ?Q \<noteq> None" by (auto simp: group_state_def split: option.splits)
  with leader_elected_provisions [of ?Q "constant_entropy 1" ?Q] gq
  have ok2: "fst (leader_elected (constant_entropy 1) ?Q) = Inr ()" by blast
  then have full: "leader_elected (constant_entropy 1) ?Q
      = (Inr (), snd (leader_elected (constant_entropy 1) ?Q))"
    by (simp add: prod_eq_iff)
  from leader_elected_provisions
    [of ?Q "constant_entropy 1" "snd (leader_elected (constant_entropy 1) ?Q)"] full gq
  have "snd (leader_elected (constant_entropy 1) ?Q) = ?Q" by blast
  then have again: "leader_elected (constant_entropy 1) ?Q = (Inr (), ?Q)"
    using ok2 by (simp add: prod_eq_iff)
  show ?thesis
    by (intro conjI) (rule p l ok pn ln un refused u generate_password_constant_0 three g again)+
qed

section \<open>Facts about calls on several units\<close>







lemma group_state_present:
  "peers s = Some d \<Longrightarrow>
   group_state s = (if dict_get d PEER_PASSWORD_KEY [] = [] then UNPROVISIONED else PROVISIONED)"
  by (simp add: group_state_def)


lemma transitions_stutter:
  "a \<noteq> b \<Longrightarrow> transitions a b (x # x # rest) = transitions a b (x # rest)"
  by simp





section \<open>The credential over the life of a group\<close>





section \<open>Overlapping leader-elected events\<close>




end
